theory Spec2Isabelle
  imports Complex_Main
begin

section \<open>NAVIGATOR v1.0: the scoring and decision engine of \<open>NAV_v1.py\<close>\<close>

text \<open>
  The engine is the set of pure functions of \<open>NAV_v1.py\<close>: \<open>clamp01\<close>, the three
  domain scorers, \<open>navigator_index\<close>, \<open>bucket\<close>, \<open>primary_limiting_domain\<close> and
  \<open>suggest_path\<close>. The Streamlit code around them only collects inputs and renders
  outputs.

  Numbers. The specification types every input and every score as a real number, and
  the development follows it: a Python \<open>float\<close> is modelled as a \<^typ>\<open>real\<close>, with
  exact arithmetic. The rounding error of IEEE-754 doubles and the non-finite
  values (NaN, infinities) are outside this model.
\<close>

subsection \<open>Scoring utilities\<close>

text \<open>
  \<open>np.clip(x, lo, hi)\<close> on a scalar is \<open>minimum(maximum(x, lo), hi)\<close>.
\<close>

definition np_clip :: "real \<Rightarrow> real \<Rightarrow> real \<Rightarrow> real" where
  "np_clip x lo hi = min (max x lo) hi"

definition clamp01 :: "real \<Rightarrow> real" where
  "clamp01 x = np_clip x 0.0 1.0"

definition score_systemic :: "real \<Rightarrow> real \<Rightarrow> real" where
  "score_systemic age bmi =
     (let age_r = clamp01 ((age - 30.0) / 15.0);
          bmi_r = clamp01 ((bmi - 22.0) / 18.0);
          sbs = 100.0 * (0.55 * age_r + 0.45 * bmi_r)
      in np_clip sbs 0 100)"

definition score_endometrial :: "real \<Rightarrow> real \<Rightarrow> real" where
  "score_endometrial emt_mm prog_ng_ml =
     (let emt_r = clamp01 ((7.0 - emt_mm) / 3.0);
          prog_r = clamp01 ((9.5 - prog_ng_ml) / 6.0);
          eps = 100.0 * (0.60 * emt_r + 0.40 * prog_r)
      in np_clip eps 0 100)"

definition score_embryo :: "bool \<Rightarrow> bool \<Rightarrow> real" where
  "score_embryo euploid good_grade =
     (let competence = 0.70 * (if euploid then 1.0 else 0.0)
                     + 0.30 * (if good_grade then 1.0 else 0.0);
          emb_r = 1.0 - clamp01 competence;
          egs = 100.0 * emb_r
      in np_clip egs 0 100)"

definition navigator_index ::
  "real \<Rightarrow> real \<Rightarrow> real \<Rightarrow> real \<Rightarrow> bool \<Rightarrow> bool \<Rightarrow> real \<times> real \<times> real \<times> real" where
  "navigator_index age bmi emt_mm prog_ng_ml euploid good_grade =
     (let sbs = score_systemic age bmi;
          eps = score_endometrial emt_mm prog_ng_ml;
          egs = score_embryo euploid good_grade;
          gni = 0.45 * egs + 0.35 * eps + 0.20 * sbs
      in (sbs, eps, egs, np_clip gni 0 100))"

definition bucket :: "real \<Rightarrow> string" where
  "bucket score =
     (if score < 30 then ''Low''
      else if score < 60 then ''Moderate''
      else ''High'')"

subsection \<open>The primary limiting domain\<close>

text \<open>
  \<open>primary_limiting_domain\<close> builds the dict
  \<open>{"Embryo": egs, "Endometrium": eps, "Systemic": sbs}\<close> and returns
  \<open>max(d, key=d.get)\<close>. A dict iterates over its keys in insertion order, and
  \<open>max\<close> keeps the first element as the running best and replaces it only by a
  later element whose key is strictly greater. The dict is modelled as the list of
  its items in insertion order; \<open>max_from\<close> is the scan of \<open>max\<close> from a running
  best over the remaining items.
\<close>

fun max_from :: "string \<times> real \<Rightarrow> (string \<times> real) list \<Rightarrow> string \<times> real" where
  "max_from best [] = best"
| "max_from best (item # items) =
     max_from (if snd item > snd best then item else best) items"

definition primary_limiting_domain :: "real \<Rightarrow> real \<Rightarrow> real \<Rightarrow> string" where
  "primary_limiting_domain sbs eps egs =
     fst (max_from (''Embryo'', egs) [(''Endometrium'', eps), (''Systemic'', sbs)])"

subsection \<open>Number formatting in the bullets\<close>

text \<open>
  The bullets embed numbers through the format specifications \<open>:.1f\<close> and \<open>:.0f\<close>:
  fixed-point notation with the given number of decimals, the value rounded to the
  nearest such decimal, a tie going to the even last digit, and a minus sign for
  every negative value. \<open>format_f d x\<close> is that text for \<open>d\<close> decimals.
\<close>

definition round_half_even :: "real \<Rightarrow> int" where
  "round_half_even x =
     (let f = \<lfloor>x\<rfloor>; r = x - of_int f
      in if r < 1 / 2 then f
         else if 1 / 2 < r then f + 1
         else if even f then f else f + 1)"

definition digit_char :: "nat \<Rightarrow> char" where
  "digit_char n = ''0123456789'' ! (n mod 10)"

fun str_nat :: "nat \<Rightarrow> string" where
  "str_nat n = (if n < 10 then [digit_char n] else str_nat (n div 10) @ [digit_char n])"

declare str_nat.simps [simp del]

definition format_f :: "nat \<Rightarrow> real \<Rightarrow> string" where
  "format_f d x =
     (let n = nat (round_half_even (\<bar>x\<bar> * 10 ^ d));
          frac = str_nat (n mod 10 ^ d)
      in (if x < 0 then ''-'' else [])
         @ str_nat (n div 10 ^ d)
         @ (if d = 0 then []
            else ''.'' @ replicate (d - length frac) (CHR ''0'') @ frac))"

text \<open>
  Three characters of the bullets are outside ASCII; they are written as their UTF-8
  bytes: the em dash (U+2014), the en dash (U+2013) and the rightwards arrow (U+2192).
\<close>

definition em_dash :: string where
  "em_dash = [CHR 0xE2, CHR 0x80, CHR 0x94]"

definition en_dash :: string where
  "en_dash = [CHR 0xE2, CHR 0x80, CHR 0x93]"

definition right_arrow :: string where
  "right_arrow = [CHR 0xE2, CHR 0x86, CHR 0x92]"

subsection \<open>Decision-tree style guidance\<close>

text \<open>
  \<open>suggest_path\<close> appends four (title, bullets) pairs to the list \<open>suggestions\<close>, in
  this order: the embryo gate, the endometrial actions, the systemic actions and the
  summary. Each of the two middle bullet lists is built by conditional appends and
  gets a fallback bullet when it is still empty. The four blocks of the function are
  given as four definitions: \<open>embryo_gate\<close> and \<open>summary_path\<close> after the comments
  of the source, \<open>endo_actions\<close> and \<open>sys_actions\<close> after its variables.
\<close>

type_synonym suggestion = "string \<times> string list"

definition embryo_gate :: "bool \<Rightarrow> suggestion" where
  "embryo_gate euploid =
     (if \<not> euploid then
        (''Primary focus: Embryo competence'',
         [''If PGT-A is available/appropriate, prioritize transferring a euploid embryo to reduce embryo-related uncertainty.'',
          ''If no euploid embryos are available, focus on optimizing stimulation strategy and embryo selection (lab + morphology).'',
          ''Consider deferring endometrial optimization steps until embryo competence is addressed.''])
      else
        (''Embryo gate passed (euploid = Yes)'',
         [''Proceed to endometrial and systemic optimization checks before transfer.'']))"

definition endo_actions :: "real \<Rightarrow> real \<Rightarrow> string list" where
  "endo_actions emt_mm prog_ng_ml =
     (let a0 = [];
          a1 = (if emt_mm < 7.0 then
                  a0 @ [''Endometrium thickness is low (EMT '' @ format_f 1 emt_mm
                          @ '' mm). Optimize endometrial preparation (standard protocol adjustments) before transfer.'',
                        ''If thin endometrium persists, consider uterine cavity evaluation (e.g., sonohysterography/hysteroscopy) per clinic practice.'']
                else a0);
          a2 = (if prog_ng_ml < 9.5 then
                  a1 @ [''Progesterone appears low (P4 '' @ format_f 1 prog_ng_ml
                          @ '' ng/mL). Consider confirming progesterone on the day of transfer (or mid-luteal depending on protocol) and adjusting luteal support per clinic standards.'']
                else a1)
      in if a2 = [] then
           a2 @ [''Endometrial readiness markers (EMT and progesterone) look acceptable for proceeding within standard workflows.'']
         else a2)"

definition sys_actions :: "real \<Rightarrow> real \<Rightarrow> string list" where
  "sys_actions age bmi =
     (let a0 = [];
          a1 = (if bmi \<ge> 30 then
                  a0 @ [''BMI is elevated (BMI '' @ format_f 1 bmi
                          @ ''). Consider a pre-transfer optimization window focusing on weight, sleep, and activity''
                          @ em_dash @ ''especially if repeated failures.'']
                else if bmi \<ge> 27 then
                  a0 @ [''BMI is moderately elevated (BMI '' @ format_f 1 bmi
                          @ ''). Lifestyle optimization may improve systemic environment before transfer.'']
                else a0);
          a2 = (if age \<ge> 38 then
                  a1 @ [''Age is '' @ format_f 0 age
                          @ ''. Consider prioritizing embryo genetics/selection and minimizing delays to transfer once readiness is confirmed.'']
                else a1)
      in if a2 = [] then
           a2 @ [''Systemic risk signals (age/BMI) are not strongly elevated; proceed with standard preparation.'']
         else a2)"

definition summary_path :: "real \<Rightarrow> real \<Rightarrow> real \<Rightarrow> real \<Rightarrow> suggestion" where
  "summary_path sbs eps egs gni =
     (let dom = primary_limiting_domain sbs eps egs
      in (''NAVIGATOR summary path'',
          [''Global NAVIGATOR Index (0'' @ en_dash @ ''100): '' @ format_f 1 gni
             @ '' '' @ right_arrow @ '' '' @ bucket gni @ '' overall risk'',
           ''Primary limiting domain: '' @ dom,
           ''Suggested sequence: Address the primary limiting domain first, then re-check readiness and proceed to transfer.'']))"

definition suggest_path ::
  "real \<Rightarrow> real \<Rightarrow> real \<Rightarrow> real \<Rightarrow> bool \<Rightarrow> bool \<Rightarrow> real \<Rightarrow> real \<Rightarrow> real \<Rightarrow> real
     \<Rightarrow> suggestion list" where
  "suggest_path age bmi emt_mm prog_ng_ml euploid good_grade sbs eps egs gni =
     (let s0 = [];
          s1 = s0 @ [embryo_gate euploid];
          s2 = s1 @ [(''Endometrial phenotype actions'', endo_actions emt_mm prog_ng_ml)];
          s3 = s2 @ [(''Systemic biology actions'', sys_actions age bmi)];
          s4 = s3 @ [summary_path sbs eps egs gni]
      in s4)"

section \<open>Properties\<close>

subsection \<open>Clipping\<close>

lemma np_clip_bounds: "lo \<le> hi \<Longrightarrow> lo \<le> np_clip x lo hi \<and> np_clip x lo hi \<le> hi"
  by (simp add: np_clip_def)


lemma np_clip_mono: "x \<le> y \<Longrightarrow> np_clip x lo hi \<le> np_clip y lo hi"
  by (auto simp add: np_clip_def min_def max_def)

lemma clamp01_bounds: "0 \<le> clamp01 x \<and> clamp01 x \<le> 1"
  using np_clip_bounds [of 0 1 x] by (simp add: clamp01_def)

lemma clamp01_mono: "x \<le> y \<Longrightarrow> clamp01 x \<le> clamp01 y"
  by (simp add: clamp01_def np_clip_mono)

subsection \<open>The domain scores\<close>

lemma score_systemic_range: "0 \<le> score_systemic age bmi \<and> score_systemic age bmi \<le> 100"
  using np_clip_bounds [of 0 100] by (simp add: score_systemic_def Let_def)

lemma score_endometrial_range:
  "0 \<le> score_endometrial emt_mm prog_ng_ml \<and> score_endometrial emt_mm prog_ng_ml \<le> 100"
  using np_clip_bounds [of 0 100] by (simp add: score_endometrial_def Let_def)

lemma score_embryo_range:
  "0 \<le> score_embryo euploid good_grade \<and> score_embryo euploid good_grade \<le> 100"
  using np_clip_bounds [of 0 100] by (simp add: score_embryo_def Let_def)

text \<open>
  Claim C1 (range invariant): for all real \<open>age\<close>, \<open>bmi\<close>, \<open>emt_mm\<close>, \<open>prog_ng_ml\<close> and
  all booleans \<open>euploid\<close>, \<open>good_grade\<close>, each of the four values returned by
  \<open>navigator_index\<close> (SBS, EPS, EGS, GNI) lies in the closed interval from 0 to 100.
\<close>

theorem navigator_index_range:
  "(case navigator_index age bmi emt_mm prog_ng_ml euploid good_grade of
      (sbs, eps, egs, gni) \<Rightarrow>
        0 \<le> sbs \<and> sbs \<le> 100 \<and> 0 \<le> eps \<and> eps \<le> 100 \<and>
        0 \<le> egs \<and> egs \<le> 100 \<and> 0 \<le> gni \<and> gni \<le> 100)"
  using score_systemic_range [of age bmi]
    score_endometrial_range [of emt_mm prog_ng_ml]
    score_embryo_range [of euploid good_grade]
    np_clip_bounds [of 0 100]
  by (simp add: navigator_index_def Let_def)


subsection \<open>Buckets and the primary limiting domain\<close>

text \<open>
  Claim C3 (bucket boundaries): for every real score \<open>s\<close>, \<open>bucket s\<close> is Low exactly
  when \<open>s < 30\<close>, Moderate exactly when \<open>30 \<le> s < 60\<close> and High exactly when
  \<open>s \<ge> 60\<close>; in particular 29.999 is Low, 30.0 is Moderate, 59.999 is Moderate and
  60.0 is High, and every score gets one of the three buckets.
\<close>

theorem bucket_thresholds:
  "(bucket s = ''Low'') = (s < 30) \<and>
   (bucket s = ''Moderate'') = (30 \<le> s \<and> s < 60) \<and>
   (bucket s = ''High'') = (60 \<le> s) \<and>
   bucket 29.999 = ''Low'' \<and> bucket 30.0 = ''Moderate'' \<and>
   bucket 59.999 = ''Moderate'' \<and> bucket 60.0 = ''High'' \<and>
   bucket s \<in> {''Low'', ''Moderate'', ''High''}"
  by (simp add: bucket_def)

text \<open>
  Claim C2 (first maximum in the scan order): for all real \<open>sbs\<close>, \<open>eps\<close>, \<open>egs\<close>,
  \<open>primary_limiting_domain\<close> returns the name of a domain whose score is the maximum
  of the three, and among tied maxima it returns Embryo before Endometrium before
  Systemic: Embryo exactly when the embryo score is the maximum, Endometrium exactly
  when the endometrial score is the maximum and the embryo score is below it,
  Systemic exactly when only the systemic score is the maximum.
\<close>

theorem primary_limiting_domain_first_max:
  "(let m = Max {sbs, eps, egs}; dom = primary_limiting_domain sbs eps egs in
      map_of [(''Embryo'', egs), (''Endometrium'', eps), (''Systemic'', sbs)] dom = Some m \<and>
      (dom = ''Embryo'') = (egs = m) \<and>
      (dom = ''Endometrium'') = (egs < m \<and> eps = m) \<and>
      (dom = ''Systemic'') = (egs < m \<and> eps < m \<and> sbs = m))"
  by (auto simp add: primary_limiting_domain_def Let_def max_def)

subsection \<open>The global index\<close>






subsection \<open>Monotonicity of the ramps\<close>

lemma score_systemic_mono_age: "a1 \<le> a2 \<Longrightarrow> score_systemic a1 bmi \<le> score_systemic a2 bmi"
  unfolding score_systemic_def Let_def
  by (intro np_clip_mono mult_left_mono add_mono clamp01_mono divide_right_mono) simp_all

lemma score_systemic_mono_bmi: "b1 \<le> b2 \<Longrightarrow> score_systemic age b1 \<le> score_systemic age b2"
  unfolding score_systemic_def Let_def
  by (intro np_clip_mono mult_left_mono add_mono clamp01_mono divide_right_mono) simp_all

lemma score_endometrial_antimono_emt:
  "e1 \<le> e2 \<Longrightarrow> score_endometrial e2 prog \<le> score_endometrial e1 prog"
  unfolding score_endometrial_def Let_def
  by (intro np_clip_mono mult_left_mono add_mono clamp01_mono divide_right_mono) simp_all

lemma score_endometrial_antimono_prog:
  "p1 \<le> p2 \<Longrightarrow> score_endometrial emt p2 \<le> score_endometrial emt p1"
  unfolding score_endometrial_def Let_def
  by (intro np_clip_mono mult_left_mono add_mono clamp01_mono divide_right_mono) simp_all

text \<open>
  Claim C6 (monotonicity): \<open>score_systemic\<close> is non-decreasing in the age for every
  fixed BMI and non-decreasing in the BMI for every fixed age; \<open>score_endometrial\<close> is
  non-increasing in the thickness for every fixed progesterone and non-increasing in
  the progesterone for every fixed thickness.
\<close>

theorem scores_monotone:
  "(a1 \<le> a2 \<longrightarrow> score_systemic a1 bmi \<le> score_systemic a2 bmi) \<and>
   (b1 \<le> b2 \<longrightarrow> score_systemic age b1 \<le> score_systemic age b2) \<and>
   (e1 \<le> e2 \<longrightarrow> score_endometrial e2 prog \<le> score_endometrial e1 prog) \<and>
   (p1 \<le> p2 \<longrightarrow> score_endometrial emt p2 \<le> score_endometrial emt p1)"
  using score_systemic_mono_age score_systemic_mono_bmi
    score_endometrial_antimono_emt score_endometrial_antimono_prog
  by blast

theorem scores_monotone_witness:
  "(34::real) \<le> 40 \<and> score_systemic 34 25 \<le> score_systemic 40 25 \<and>
   (25::real) \<le> 31 \<and> score_systemic 34 25 \<le> score_systemic 34 31 \<and>
   (5::real) \<le> 6 \<and> score_endometrial 6 8 \<le> score_endometrial 5 8 \<and>
   (5::real) \<le> 8 \<and> score_endometrial 6 8 \<le> score_endometrial 6 5"
  using scores_monotone [of 34 40 25 25 31 34 5 6 8 5 8 6] by simp

subsection \<open>The suggested path\<close>

lemma length_endo_actions:
  "length (endo_actions emt_mm prog_ng_ml) =
     (if emt_mm < 7 then (if prog_ng_ml < 9.5 then 3 else 2) else 1)"
  by (simp add: endo_actions_def Let_def)

lemma length_sys_actions:
  "length (sys_actions age bmi) =
     (if 27 \<le> bmi then (if 38 \<le> age then 2 else 1) else 1)"
  by (simp add: sys_actions_def Let_def)

text \<open>
  Claim C7 (embryo gate): for every input, the first section returned by
  \<open>suggest_path\<close> is the embryo gate: when \<open>euploid\<close> is false its title is
  "Primary focus: Embryo competence" and it has exactly 3 bullets; when \<open>euploid\<close> is
  true its title is "Embryo gate passed (euploid = Yes)" and it has exactly 1 bullet.
\<close>

theorem suggest_path_embryo_gate:
  "suggest_path age bmi emt_mm prog_ng_ml euploid good_grade sbs eps egs gni \<noteq> [] \<and>
   fst (suggest_path age bmi emt_mm prog_ng_ml euploid good_grade sbs eps egs gni ! 0) =
     (if euploid then ''Embryo gate passed (euploid = Yes)''
      else ''Primary focus: Embryo competence'') \<and>
   length (snd (suggest_path age bmi emt_mm prog_ng_ml euploid good_grade sbs eps egs gni ! 0)) =
     (if euploid then 1 else 3)"
  by (simp add: suggest_path_def embryo_gate_def Let_def)

text \<open>
  Claim C9 (shape of the path): for every input, \<open>suggest_path\<close> returns exactly 4
  sections, in the order embryo gate, "Endometrial phenotype actions", "Systemic
  biology actions", "NAVIGATOR summary path"; every section has at least 1 and at
  most 3 bullets; the endometrial section has 3 bullets exactly when the thickness
  is below 7.0 and the progesterone below 9.5, the systemic section has at most 2,
  and the summary section has exactly 3.
\<close>

theorem suggest_path_shape:
  "(let sp = suggest_path age bmi emt_mm prog_ng_ml euploid good_grade sbs eps egs gni in
      length sp = 4 \<and>
      fst (sp ! 0) \<in> {''Primary focus: Embryo competence'', ''Embryo gate passed (euploid = Yes)''} \<and>
      map fst (tl sp) =
        [''Endometrial phenotype actions'', ''Systemic biology actions'', ''NAVIGATOR summary path''] \<and>
      list_all (\<lambda>s. 1 \<le> length (snd s) \<and> length (snd s) \<le> 3) sp \<and>
      (length (snd (sp ! 1)) = 3) = (emt_mm < 7.0 \<and> prog_ng_ml < 9.5) \<and>
      length (snd (sp ! 2)) \<le> 2 \<and>
      length (snd (sp ! 3)) = 3)"
  by (simp add: suggest_path_def embryo_gate_def summary_path_def Let_def
      length_endo_actions length_sys_actions)

end
